theory Spec2Isabelle
  imports Complex_Main "HOL-Library.Multiset"
begin

section \<open>Invoice / purchase-order reconciliation (scripts/invoice_po_matcher.py)\<close>

text \<open>
  The matcher works on dictionaries loaded from JSON. A dictionary with a fixed set of
  keys is a record here. A key the source reads with \<^verbatim>\<open>d[k]\<close> is a plain field
  (the key is required); a key it reads with \<^verbatim>\<open>d.get(k)\<close> or
  \<^verbatim>\<open>d.get(k, default)\<close> is an \<open>option\<close> field, \<open>None\<close> standing for an absent key.
  Amounts are Python numbers; they are exact rationals here, so \<^verbatim>\<open>0.01\<close> is
  \<open>1 / 100\<close> and the rounding of binary floating point is not part of the model.
  Quantities are integers.
\<close>

subsection \<open>Python values and exceptions\<close>

datatype py_value = PyNone | PyStr string | PyInt int | PyNum rat

datatype py_error = FileNotFoundError | KeyError | TypeError | ValueError | ZeroDivisionError

text \<open>\<^verbatim>\<open>d.get(k)\<close> for a text key and for a numeric key; \<^verbatim>\<open>d.get(k, 0)\<close>.\<close>

definition get_str :: "string option \<Rightarrow> py_value" where
  "get_str v = (case v of None \<Rightarrow> PyNone | Some s \<Rightarrow> PyStr s)"

definition get_num :: "rat option \<Rightarrow> py_value" where
  "get_num v = (case v of None \<Rightarrow> PyNone | Some x \<Rightarrow> PyNum x)"

definition get_or_0 :: "rat option \<Rightarrow> rat" where
  "get_or_0 v = (case v of None \<Rightarrow> 0 | Some x \<Rightarrow> x)"

definition get_or_empty :: "'a list option \<Rightarrow> 'a list" where
  "get_or_empty v = (case v of None \<Rightarrow> [] | Some xs \<Rightarrow> xs)"

subsection \<open>Documents\<close>

record line_item =
  item_code :: string
  description :: string
  quantity :: int
  unit_price :: rat
  line_total :: rat

record purchase_order =
  p_po_number :: string
  p_po_date :: "string option"
  p_vendor_name :: "string option"
  p_vendor_id :: "string option"
  p_currency :: "string option"
  p_subtotal :: "rat option"
  p_tax :: "rat option"
  p_total_amount :: "rat option"
  p_line_items :: "line_item list option"

record invoice =
  i_invoice_number :: string
  i_invoice_date :: "string option"
  i_po_reference :: "string option"
  i_vendor_name :: "string option"
  i_vendor_id :: "string option"
  i_currency :: "string option"
  i_subtotal :: "rat option"
  i_tax :: "rat option"
  i_total_amount :: "rat option"
  i_line_items :: "line_item list option"

subsection \<open>Comparison results\<close>

datatype severity_level = HIGH | MEDIUM

text \<open>
  One issue dictionary. Header issues carry \<open>severity\<close>, and \<open>difference\<close> for the
  numeric fields; the per-field issues of a line item carry \<open>difference\<close> and no
  \<open>severity\<close>. \<open>None\<close> is an absent key.
\<close>

record issue =
  field :: string
  invoice_value :: py_value
  po_value :: py_value
  difference :: "py_value option"
  severity :: "severity_level option"

text \<open>
  The entries of the mismatch list, by their \<^verbatim>\<open>'type'\<close>:
  \<open>ITEM_NOT_IN_PO item_code description invoice_quantity issue\<close>,
  \<open>ITEM_MISMATCH item_code description issues\<close>,
  \<open>ITEM_NOT_IN_INVOICE item_code description po_quantity issue\<close>.
\<close>

datatype line_item_mismatch =
    ITEM_NOT_IN_PO string string int string
  | ITEM_MISMATCH string string "issue list"
  | ITEM_NOT_IN_INVOICE string string int string

record line_item_comparison =
  total_items_in_invoice :: nat
  total_items_in_po :: nat
  matched_items :: nat
  mismatches :: "line_item_mismatch list"
  has_line_item_issues :: bool

datatype status_value = MATCH | MISMATCH | ERROR

text \<open>
  \<open>compare_invoice_with_po\<close> returns a dictionary of one of two shapes: the short one of
  its two early returns (\<open>e_po_reference\<close> is \<open>None\<close> when the key is absent, as in the
  first of them), and the full one of a comparison that took place.
\<close>

record error_result =
  e_invoice_number :: string
  e_po_reference :: "string option"
  e_status :: status_value
  error :: string

record compared_result =
  invoice_number :: string
  invoice_date :: "string option"
  po_reference :: string
  po_date :: "string option"
  vendor_name :: "string option"
  invoice_total :: "rat option"
  po_total :: "rat option"
  status :: status_value
  header_issues :: "issue list"
  line_item_comparison :: line_item_comparison
  total_issues :: nat

datatype comparison = ErrorResult error_result | Compared compared_result

record summary_counters =
  total_matched :: nat
  total_mismatched :: nat
  total_errors :: nat
  total_amount_variance :: rat
  high_severity_issues :: nat
  medium_severity_issues :: nat

record results =
  total_invoices :: nat
  matched :: "comparison list"
  mismatched :: "comparison list"
  errors :: "comparison list"
  summary :: summary_counters

subsection \<open>The matcher and \<open>load_data\<close>\<close>

record matcher =
  invoices :: "invoice list"
  purchase_orders :: "purchase_order list"
  po_lookup :: "string \<rightharpoonup> purchase_order"

text \<open>
  \<open>load_data\<close> reads the two JSON files; the arguments are their contents, \<open>None\<close> for a
  file that does not exist. The dictionary comprehension keeps the last purchase order
  of each number.
\<close>

definition load_data :: "invoice list option \<Rightarrow> purchase_order list option \<Rightarrow> py_error + matcher" where
  "load_data invoice_file po_file =
     (case invoice_file of
        None \<Rightarrow> Inl FileNotFoundError
      | Some invs \<Rightarrow>
          (case po_file of
             None \<Rightarrow> Inl FileNotFoundError
           | Some pos \<Rightarrow>
               Inr \<lparr>invoices = invs, purchase_orders = pos,
                    po_lookup = foldl (\<lambda>m po. m(p_po_number po \<mapsto> po)) Map.empty pos\<rparr>))"

subsection \<open>\<open>compare_line_items\<close>\<close>

definition po_items_lookup :: "line_item list \<Rightarrow> (string \<rightharpoonup> line_item)" where
  "po_items_lookup po_items = foldl (\<lambda>m item. m(item_code item \<mapsto> item)) Map.empty po_items"

text \<open>The three field comparisons of an invoice item with the PO item of its code.\<close>

definition item_issues :: "line_item \<Rightarrow> line_item \<Rightarrow> issue list" where
  "item_issues inv_item po_item =
     (if quantity inv_item \<noteq> quantity po_item
      then [\<lparr>field = ''quantity'',
             invoice_value = PyInt (quantity inv_item),
             po_value = PyInt (quantity po_item),
             difference = Some (PyInt (quantity inv_item - quantity po_item)),
             severity = None\<rparr>]
      else []) @
     (if \<bar>unit_price inv_item - unit_price po_item\<bar> > 1 / 100
      then [\<lparr>field = ''unit_price'',
             invoice_value = PyNum (unit_price inv_item),
             po_value = PyNum (unit_price po_item),
             difference = Some (PyNum (unit_price inv_item - unit_price po_item)),
             severity = None\<rparr>]
      else []) @
     (if \<bar>line_total inv_item - line_total po_item\<bar> > 1 / 100
      then [\<lparr>field = ''total'',
             invoice_value = PyNum (line_total inv_item),
             po_value = PyNum (line_total po_item),
             difference = Some (PyNum (line_total inv_item - line_total po_item)),
             severity = None\<rparr>]
      else [])"

text \<open>The body of the loop over the invoice items; the state is \<open>(mismatches, matched_items)\<close>.\<close>

definition invoice_item_step ::
  "(string \<rightharpoonup> line_item) \<Rightarrow> line_item_mismatch list \<times> nat \<Rightarrow> line_item
     \<Rightarrow> line_item_mismatch list \<times> nat" where
  "invoice_item_step lookup acc inv_item =
     (case lookup (item_code inv_item) of
        None \<Rightarrow>
          (fst acc @ [ITEM_NOT_IN_PO (item_code inv_item) (description inv_item)
                        (quantity inv_item) ''Item in invoice but not in referenced PO''],
           snd acc)
      | Some po_item \<Rightarrow>
          (if item_issues inv_item po_item \<noteq> []
           then (fst acc @ [ITEM_MISMATCH (item_code inv_item) (description inv_item)
                              (item_issues inv_item po_item)],
                 snd acc)
           else (fst acc, snd acc + 1)))"

text \<open>The body of the loop over the PO items.\<close>

definition po_item_step ::
  "string set \<Rightarrow> line_item_mismatch list \<Rightarrow> line_item \<Rightarrow> line_item_mismatch list" where
  "po_item_step invoice_item_codes acc po_item =
     (if item_code po_item \<notin> invoice_item_codes
      then acc @ [ITEM_NOT_IN_INVOICE (item_code po_item) (description po_item)
                    (quantity po_item) ''Item in PO but not invoiced'']
      else acc)"

definition compare_line_items :: "line_item list \<Rightarrow> line_item list \<Rightarrow> line_item_comparison" where
  "compare_line_items invoice_items po_items =
     (let after_invoice = foldl (invoice_item_step (po_items_lookup po_items)) ([], 0) invoice_items;
          invoice_item_codes = set (map item_code invoice_items);
          all_mismatches = foldl (po_item_step invoice_item_codes) (fst after_invoice) po_items
      in \<lparr>total_items_in_invoice = length invoice_items,
          total_items_in_po = length po_items,
          matched_items = snd after_invoice,
          mismatches = all_mismatches,
          has_line_item_issues = (length all_mismatches > 0)\<rparr>)"

subsection \<open>\<open>compare_invoice_with_po\<close>\<close>

text \<open>The six header checks, in the order of the source.\<close>

definition header_checks :: "invoice \<Rightarrow> purchase_order \<Rightarrow> issue list" where
  "header_checks invoice po =
     (if i_vendor_name invoice \<noteq> p_vendor_name po
      then [\<lparr>field = ''vendor_name'',
             invoice_value = get_str (i_vendor_name invoice),
             po_value = get_str (p_vendor_name po),
             difference = None, severity = Some HIGH\<rparr>]
      else []) @
     (if i_vendor_id invoice \<noteq> p_vendor_id po
      then [\<lparr>field = ''vendor_id'',
             invoice_value = get_str (i_vendor_id invoice),
             po_value = get_str (p_vendor_id po),
             difference = None, severity = Some HIGH\<rparr>]
      else []) @
     (if i_currency invoice \<noteq> p_currency po
      then [\<lparr>field = ''currency'',
             invoice_value = get_str (i_currency invoice),
             po_value = get_str (p_currency po),
             difference = None, severity = Some HIGH\<rparr>]
      else []) @
     (if \<bar>get_or_0 (i_subtotal invoice) - get_or_0 (p_subtotal po)\<bar> > 1 / 100
      then [\<lparr>field = ''subtotal'',
             invoice_value = get_num (i_subtotal invoice),
             po_value = get_num (p_subtotal po),
             difference = Some (PyNum (get_or_0 (i_subtotal invoice) - get_or_0 (p_subtotal po))),
             severity = Some HIGH\<rparr>]
      else []) @
     (if \<bar>get_or_0 (i_tax invoice) - get_or_0 (p_tax po)\<bar> > 1 / 100
      then [\<lparr>field = ''tax'',
             invoice_value = get_num (i_tax invoice),
             po_value = get_num (p_tax po),
             difference = Some (PyNum (get_or_0 (i_tax invoice) - get_or_0 (p_tax po))),
             severity = Some MEDIUM\<rparr>]
      else []) @
     (if \<bar>get_or_0 (i_total_amount invoice) - get_or_0 (p_total_amount po)\<bar> > 1 / 100
      then [\<lparr>field = ''total_amount'',
             invoice_value = get_num (i_total_amount invoice),
             po_value = get_num (p_total_amount po),
             difference = Some (PyNum (get_or_0 (i_total_amount invoice) - get_or_0 (p_total_amount po))),
             severity = Some HIGH\<rparr>]
      else [])"

text \<open>The part after the PO has been found.\<close>

definition compare_with :: "invoice \<Rightarrow> string \<Rightarrow> purchase_order \<Rightarrow> compared_result" where
  "compare_with invoice ref po =
     (let issues = header_checks invoice po;
          lic = compare_line_items (get_or_empty (i_line_items invoice)) (get_or_empty (p_line_items po));
          has_issues = (length issues > 0 \<or> has_line_item_issues lic)
      in \<lparr>invoice_number = i_invoice_number invoice,
          invoice_date = i_invoice_date invoice,
          po_reference = ref,
          po_date = p_po_date po,
          vendor_name = i_vendor_name invoice,
          invoice_total = i_total_amount invoice,
          po_total = p_total_amount po,
          status = (if has_issues then MISMATCH else MATCH),
          header_issues = issues,
          line_item_comparison = lic,
          total_issues = length issues + length (mismatches lic)\<rparr>)"

text \<open>
  \<^verbatim>\<open>not po_reference\<close> holds of \<^verbatim>\<open>None\<close> and of the empty string. A purchase order
  in the index is a dictionary with the key \<^verbatim>\<open>po_number\<close>, so \<^verbatim>\<open>not po\<close> holds
  only when the lookup found nothing.
\<close>

definition compare_invoice_with_po :: "matcher \<Rightarrow> invoice \<Rightarrow> comparison" where
  "compare_invoice_with_po self invoice =
     (case i_po_reference invoice of
        None \<Rightarrow>
          ErrorResult \<lparr>e_invoice_number = i_invoice_number invoice, e_po_reference = None,
                       e_status = ERROR, error = ''Invoice has no PO reference''\<rparr>
      | Some ref \<Rightarrow>
          (if ref = []
           then ErrorResult \<lparr>e_invoice_number = i_invoice_number invoice, e_po_reference = None,
                             e_status = ERROR, error = ''Invoice has no PO reference''\<rparr>
           else (case po_lookup self ref of
                   None \<Rightarrow>
                     ErrorResult \<lparr>e_invoice_number = i_invoice_number invoice,
                                  e_po_reference = Some ref, e_status = ERROR,
                                  error = ''Referenced PO '' @ ref @ '' not found''\<rparr>
                 | Some po \<Rightarrow> Compared (compare_with invoice ref po))))"

subsection \<open>\<open>find_all_mismatches\<close>\<close>

text \<open>\<^verbatim>\<open>comparison['status']\<close> and \<^verbatim>\<open>comparison.get('header_issues', [])\<close>.\<close>

definition status_of :: "comparison \<Rightarrow> status_value" where
  "status_of c = (case c of ErrorResult e \<Rightarrow> e_status e | Compared r \<Rightarrow> status r)"

definition get_header_issues :: "comparison \<Rightarrow> issue list" where
  "get_header_issues c = (case c of ErrorResult e \<Rightarrow> [] | Compared r \<Rightarrow> header_issues r)"

text \<open>
  The variance of a mismatched invoice. Both keys are in every full result, so the test
  of the source passes there, and the subtraction raises \<^verbatim>\<open>TypeError\<close> when a total is
  \<^verbatim>\<open>None\<close>.
\<close>

definition add_variance :: "comparison \<Rightarrow> summary_counters \<Rightarrow> py_error + summary_counters" where
  "add_variance c s =
     (case c of
        ErrorResult e \<Rightarrow> Inr s
      | Compared r \<Rightarrow>
          (case invoice_total r of
             None \<Rightarrow> Inl TypeError
           | Some a \<Rightarrow>
               (case po_total r of
                  None \<Rightarrow> Inl TypeError
                | Some b \<Rightarrow> Inr (s\<lparr>total_amount_variance := total_amount_variance s + \<bar>a - b\<bar>\<rparr>))))"

definition count_severity :: "summary_counters \<Rightarrow> issue \<Rightarrow> summary_counters" where
  "count_severity s i =
     (if severity i = Some HIGH
      then s\<lparr>high_severity_issues := high_severity_issues s + 1\<rparr>
      else if severity i = Some MEDIUM
      then s\<lparr>medium_severity_issues := medium_severity_issues s + 1\<rparr>
      else s)"

text \<open>The body of the loop over the invoices.\<close>

definition classify :: "results \<Rightarrow> comparison \<Rightarrow> py_error + results" where
  "classify res c =
     (if status_of c = MATCH
      then Inr (res\<lparr>matched := matched res @ [c],
                    summary := (summary res)\<lparr>total_matched := total_matched (summary res) + 1\<rparr>\<rparr>)
      else if status_of c = MISMATCH
      then (case add_variance c
                   ((summary res)\<lparr>total_mismatched := total_mismatched (summary res) + 1\<rparr>) of
              Inl e \<Rightarrow> Inl e
            | Inr s \<Rightarrow>
                Inr (res\<lparr>mismatched := mismatched res @ [c],
                         summary := foldl count_severity s (get_header_issues c)\<rparr>))
      else Inr (res\<lparr>errors := errors res @ [c],
                    summary := (summary res)\<lparr>total_errors := total_errors (summary res) + 1\<rparr>\<rparr>))"

fun find_all_loop :: "matcher \<Rightarrow> invoice list \<Rightarrow> results \<Rightarrow> py_error + results" where
  "find_all_loop self [] res = Inr res"
| "find_all_loop self (invoice # rest) res =
     (case classify res (compare_invoice_with_po self invoice) of
        Inl e \<Rightarrow> Inl e
      | Inr res' \<Rightarrow> find_all_loop self rest res')"

definition initial_results :: "matcher \<Rightarrow> results" where
  "initial_results self =
     \<lparr>total_invoices = length (invoices self), matched = [], mismatched = [], errors = [],
      summary = \<lparr>total_matched = 0, total_mismatched = 0, total_errors = 0,
                 total_amount_variance = 0, high_severity_issues = 0,
                 medium_severity_issues = 0\<rparr>\<rparr>"

definition find_all_mismatches :: "matcher \<Rightarrow> py_error + results" where
  "find_all_mismatches self = find_all_loop self (invoices self) (initial_results self)"

subsection \<open>\<open>get_mismatch_summary_text\<close>\<close>

text \<open>
  The report is built from f-strings. How Python prints a number is not part of this
  repository, so the renderings are parameters: \<open>str_nat\<close> and \<open>str_int\<close> print an
  integer, \<open>str_num\<close> a float, \<open>format_1f\<close> is \<^verbatim>\<open>:.1f\<close>, \<open>format_2f\<close> is
  \<^verbatim>\<open>:,.2f\<close>, \<open>format_signed_2f\<close> is \<^verbatim>\<open>:+,.2f\<close>, and \<open>format_signed_int\<close>,
  \<open>format_signed_num\<close> are \<^verbatim>\<open>:+\<close>. A string is a list of bytes, and the four
  symbols of the report stand as their UTF-8 bytes.
\<close>

record formatters =
  str_nat :: "nat \<Rightarrow> string"
  str_int :: "int \<Rightarrow> string"
  str_num :: "rat \<Rightarrow> string"
  format_1f :: "rat \<Rightarrow> string"
  format_2f :: "rat \<Rightarrow> string"
  format_signed_2f :: "rat \<Rightarrow> string"
  format_signed_int :: "int \<Rightarrow> string"
  format_signed_num :: "rat \<Rightarrow> string"

definition check_mark :: string where
  "check_mark = [CHR 0xE2, CHR 0x9C, CHR 0x93]"

definition ballot_x :: string where
  "ballot_x = [CHR 0xE2, CHR 0x9C, CHR 0x97]"

definition right_arrow :: string where
  "right_arrow = [CHR 0xE2, CHR 0x86, CHR 0x92]"

definition bullet :: string where
  "bullet = [CHR 0xE2, CHR 0x80, CHR 0xA2]"

definition newline :: string where
  "newline = [CHR 0x0A]"

definition quote :: string where
  "quote = [CHR 0x27]"

definition rule_line :: string where
  "rule_line = replicate 80 (CHR ''='')"

text \<open>Sequencing of steps that may raise, and a loop whose body may raise.\<close>

definition then_do :: "py_error + 'a \<Rightarrow> ('a \<Rightarrow> py_error + 'b) \<Rightarrow> py_error + 'b" where
  "then_do m f = (case m of Inl e \<Rightarrow> Inl e | Inr x \<Rightarrow> f x)"

fun for_each :: "('a \<Rightarrow> py_error + string list) \<Rightarrow> 'a list \<Rightarrow> py_error + string list" where
  "for_each body [] = Inr []"
| "for_each body (x # xs) =
     then_do (body x) (\<lambda>ls. then_do (for_each body xs) (\<lambda>rest. Inr (ls @ rest)))"

definition py_truediv :: "rat \<Rightarrow> rat \<Rightarrow> py_error + rat" where
  "py_truediv a b = (if b = 0 then Inl ZeroDivisionError else Inr (a / b))"

text \<open>\<^verbatim>\<open>f"{v}"\<close>, and the float formats, which raise on \<^verbatim>\<open>None\<close> and on a string.\<close>

definition str_value :: "formatters \<Rightarrow> py_value \<Rightarrow> string" where
  "str_value fm v =
     (case v of PyNone \<Rightarrow> ''None'' | PyStr s \<Rightarrow> s | PyInt n \<Rightarrow> str_int fm n
      | PyNum x \<Rightarrow> str_num fm x)"

definition format_value_2f :: "formatters \<Rightarrow> py_value \<Rightarrow> py_error + string" where
  "format_value_2f fm v =
     (case v of PyNone \<Rightarrow> Inl TypeError | PyStr s \<Rightarrow> Inl ValueError
      | PyInt n \<Rightarrow> Inr (format_2f fm (of_int n)) | PyNum x \<Rightarrow> Inr (format_2f fm x))"

definition format_value_signed_2f :: "formatters \<Rightarrow> py_value \<Rightarrow> py_error + string" where
  "format_value_signed_2f fm v =
     (case v of PyNone \<Rightarrow> Inl TypeError | PyStr s \<Rightarrow> Inl ValueError
      | PyInt n \<Rightarrow> Inr (format_signed_2f fm (of_int n)) | PyNum x \<Rightarrow> Inr (format_signed_2f fm x))"

definition format_value_signed :: "formatters \<Rightarrow> py_value \<Rightarrow> py_error + string" where
  "format_value_signed fm v =
     (case v of PyNone \<Rightarrow> Inl TypeError | PyStr s \<Rightarrow> Inl ValueError
      | PyInt n \<Rightarrow> Inr (format_signed_int fm n) | PyNum x \<Rightarrow> Inr (format_signed_num fm x))"

definition severity_text :: "severity_level option \<Rightarrow> string" where
  "severity_text s =
     (case s of None \<Rightarrow> ''MEDIUM'' | Some HIGH \<Rightarrow> ''HIGH'' | Some MEDIUM \<Rightarrow> ''MEDIUM'')"

text \<open>The head of the report, down to the severity counts.\<close>

definition summary_lines :: "formatters \<Rightarrow> results \<Rightarrow> py_error + string list" where
  "summary_lines fm res =
     then_do (py_truediv (of_nat (total_matched (summary res))) (of_nat (total_invoices res)))
       (\<lambda>q_matched.
     then_do (py_truediv (of_nat (total_mismatched (summary res))) (of_nat (total_invoices res)))
       (\<lambda>q_mismatched.
     Inr [rule_line,
          ''INVOICE-PO MISMATCH ANALYSIS REPORT'',
          rule_line,
          [],
          ''Total Invoices Analyzed: '' @ str_nat fm (total_invoices res),
          ''  '' @ check_mark @ '' Matched: '' @ str_nat fm (total_matched (summary res))
             @ '' ('' @ format_1f fm (q_matched * 100) @ ''%)'',
          ''  '' @ ballot_x @ '' Mismatched: '' @ str_nat fm (total_mismatched (summary res))
             @ '' ('' @ format_1f fm (q_mismatched * 100) @ ''%)'',
          ''  ! Errors: '' @ str_nat fm (total_errors (summary res)),
          [],
          ''Total Amount Variance: $'' @ format_2f fm (total_amount_variance (summary res)),
          ''High Severity Issues: '' @ str_nat fm (high_severity_issues (summary res)),
          ''Medium Severity Issues: '' @ str_nat fm (medium_severity_issues (summary res)),
          []]))"

definition header_issue_line :: "formatters \<Rightarrow> issue \<Rightarrow> py_error + string list" where
  "header_issue_line fm i =
     (case difference i of
        Some diff \<Rightarrow>
          then_do (format_value_2f fm (invoice_value i)) (\<lambda>inv_text.
          then_do (format_value_2f fm (po_value i)) (\<lambda>po_text.
          then_do (format_value_signed_2f fm diff) (\<lambda>diff_text.
          Inr [''     - '' @ field i @ '' ['' @ severity_text (severity i) @ '']: Invoice=$''
                 @ inv_text @ '' vs PO=$'' @ po_text @ '' (Diff: $'' @ diff_text @ '')''])))
      | None \<Rightarrow>
          Inr [''     - '' @ field i @ '' ['' @ severity_text (severity i) @ '']: Invoice=''
                 @ quote @ str_value fm (invoice_value i) @ quote @ '' vs PO=''
                 @ quote @ str_value fm (po_value i) @ quote])"

definition item_detail_line :: "formatters \<Rightarrow> issue \<Rightarrow> py_error + string list" where
  "item_detail_line fm detail =
     (case difference detail of
        None \<Rightarrow> Inl KeyError
      | Some diff \<Rightarrow>
          then_do (format_value_signed fm diff) (\<lambda>diff_text.
          Inr [''       '' @ bullet @ '' '' @ field detail @ '': Invoice=''
                 @ str_value fm (invoice_value detail) @ '' vs PO=''
                 @ str_value fm (po_value detail) @ '' (Diff: '' @ diff_text @ '')'']))"

definition line_item_issue_lines :: "formatters \<Rightarrow> line_item_mismatch \<Rightarrow> py_error + string list" where
  "line_item_issue_lines fm item_issue =
     (case item_issue of
        ITEM_MISMATCH code descr details \<Rightarrow>
          then_do (for_each (item_detail_line fm) details) (\<lambda>detail_lines.
          Inr ((''     - Item '' @ code @ '' ('' @ descr @ ''):'') # detail_lines))
      | ITEM_NOT_IN_PO code descr qty msg \<Rightarrow>
          Inr [''     - '' @ code @ '': In invoice but NOT in PO (Qty: '' @ str_int fm qty @ '')'']
      | ITEM_NOT_IN_INVOICE code descr qty msg \<Rightarrow>
          Inr [''     - '' @ code @ '': In PO but NOT invoiced (Qty: '' @ str_int fm qty @ '')''])"

text \<open>
  One block of the detail section. A result of the short shape has no
  \<^verbatim>\<open>vendor_name\<close>, and a total that is \<^verbatim>\<open>None\<close> cannot be formatted.
\<close>

definition mismatch_lines :: "formatters \<Rightarrow> nat \<times> comparison \<Rightarrow> py_error + string list" where
  "mismatch_lines fm entry =
     (case snd entry of
        ErrorResult e \<Rightarrow> Inl KeyError
      | Compared r \<Rightarrow>
          then_do (case invoice_total r of None \<Rightarrow> Inl TypeError | Some x \<Rightarrow> Inr (format_2f fm x))
            (\<lambda>inv_total_text.
          then_do (case po_total r of None \<Rightarrow> Inl TypeError | Some x \<Rightarrow> Inr (format_2f fm x))
            (\<lambda>po_total_text.
          then_do (if header_issues r \<noteq> []
                   then then_do (for_each (header_issue_line fm) (header_issues r))
                          (\<lambda>ls. Inr ((newline @ ''   Header Issues:'') # ls))
                   else Inr [])
            (\<lambda>header_lines.
          then_do (if mismatches (line_item_comparison r) \<noteq> []
                   then then_do (for_each (line_item_issue_lines fm)
                                   (mismatches (line_item_comparison r)))
                          (\<lambda>ls. Inr ((newline @ ''   Line Item Issues:'') # ls))
                   else Inr [])
            (\<lambda>item_lines.
          Inr ([newline @ str_nat fm (fst entry) @ ''. Invoice: '' @ invoice_number r @ '' ''
                  @ right_arrow @ '' PO: '' @ po_reference r,
                ''   Vendor: '' @ str_value fm (get_str (vendor_name r)),
                ''   Invoice Total: $'' @ inv_total_text @ '' | PO Total: $'' @ po_total_text,
                ''   Total Issues: '' @ str_nat fm (total_issues r)]
               @ header_lines @ item_lines @ [[]]))))))"

definition error_line :: "comparison \<Rightarrow> py_error + string list" where
  "error_line c =
     (case c of
        ErrorResult e \<Rightarrow> Inr [''  - Invoice '' @ e_invoice_number e @ '': '' @ error e]
      | Compared r \<Rightarrow> Inl KeyError)"

definition join :: "string \<Rightarrow> string list \<Rightarrow> string" where
  "join sep ls = (case ls of [] \<Rightarrow> [] | l # rest \<Rightarrow> l @ concat (map (\<lambda>x. sep @ x) rest))"

definition report_lines :: "formatters \<Rightarrow> results \<Rightarrow> py_error + string list" where
  "report_lines fm res =
     then_do (summary_lines fm res) (\<lambda>head_lines.
     then_do (if mismatched res \<noteq> []
              then then_do (for_each (mismatch_lines fm)
                              (zip [1 ..< Suc (length (mismatched res))] (mismatched res)))
                     (\<lambda>ls. Inr ([rule_line, ''MISMATCHED INVOICES DETAIL'', rule_line, []] @ ls))
              else Inr [])
       (\<lambda>detail_lines.
     then_do (if errors res \<noteq> []
              then then_do (for_each error_line (errors res))
                     (\<lambda>ls. Inr ([rule_line, ''ERRORS'', rule_line] @ ls))
              else Inr [])
       (\<lambda>error_lines.
     Inr (head_lines @ detail_lines @ error_lines @ [[]]))))"

definition get_mismatch_summary_text :: "formatters \<Rightarrow> matcher \<Rightarrow> py_error + string" where
  "get_mismatch_summary_text fm self =
     then_do (find_all_mismatches self) (\<lambda>res.
     then_do (report_lines fm res) (\<lambda>ls. Inr (join newline ls)))"

section \<open>Notions used in the statements\<close>

text \<open>
  None of these is part of the program. \<open>invoice_entry\<close> and \<open>po_only_entry\<close> are what one
  round of each loop of \<open>compare_line_items\<close> appends; \<open>resolve_po\<close> is the purchase order
  an invoice refers to, when its reference is not empty and is in the index;
  \<open>variance_of\<close>, \<open>variance_defined\<close>, \<open>with_status\<close>, \<open>with_severity\<close> and \<open>loop_post\<close>
  describe the result of the loop of \<open>find_all_mismatches\<close>; \<open>same_header\<close> and
  \<open>same_items_per_code\<close> say that an invoice and a purchase order agree.
\<close>

definition invoice_entry :: "(string \<rightharpoonup> line_item) \<Rightarrow> line_item \<Rightarrow> line_item_mismatch list" where
  "invoice_entry lookup inv_item =
     (case lookup (item_code inv_item) of
        None \<Rightarrow> [ITEM_NOT_IN_PO (item_code inv_item) (description inv_item) (quantity inv_item)
                   ''Item in invoice but not in referenced PO'']
      | Some po_item \<Rightarrow>
          (if item_issues inv_item po_item = [] then []
           else [ITEM_MISMATCH (item_code inv_item) (description inv_item)
                   (item_issues inv_item po_item)]))"

definition po_only_entry :: "line_item \<Rightarrow> line_item_mismatch" where
  "po_only_entry po_item =
     ITEM_NOT_IN_INVOICE (item_code po_item) (description po_item) (quantity po_item)
       ''Item in PO but not invoiced''"

definition same_items_per_code :: "line_item list \<Rightarrow> line_item list \<Rightarrow> bool" where
  "same_items_per_code xs ys \<longleftrightarrow>
     item_code ` set xs = item_code ` set ys \<and>
     (\<forall>a \<in> set xs. \<forall>b \<in> set ys. item_code a = item_code b \<longrightarrow>
        quantity a = quantity b \<and> unit_price a = unit_price b \<and> line_total a = line_total b)"

definition resolve_po :: "matcher \<Rightarrow> invoice \<Rightarrow> (string \<times> purchase_order) option" where
  "resolve_po self invoice =
     (case i_po_reference invoice of
        None \<Rightarrow> None
      | Some ref \<Rightarrow>
          (if ref = [] then None
           else (case po_lookup self ref of None \<Rightarrow> None | Some po \<Rightarrow> Some (ref, po))))"

definition variance_of :: "comparison \<Rightarrow> rat" where
  "variance_of c =
     (case c of ErrorResult e \<Rightarrow> 0
      | Compared r \<Rightarrow> \<bar>get_or_0 (invoice_total r) - get_or_0 (po_total r)\<bar>)"

definition variance_defined :: "comparison \<Rightarrow> bool" where
  "variance_defined c =
     (case c of ErrorResult e \<Rightarrow> True
      | Compared r \<Rightarrow> invoice_total r \<noteq> None \<and> po_total r \<noteq> None)"

definition with_severity :: "severity_level \<Rightarrow> issue list \<Rightarrow> issue list" where
  "with_severity s = filter (\<lambda>i. severity i = Some s)"

definition with_status :: "status_value \<Rightarrow> comparison list \<Rightarrow> comparison list" where
  "with_status s = filter (\<lambda>c. status_of c = s)"

definition loop_post :: "results \<Rightarrow> comparison list \<Rightarrow> results \<Rightarrow> bool" where
  "loop_post res cs res' \<longleftrightarrow>
     total_invoices res' = total_invoices res \<and>
     matched res' = matched res @ with_status MATCH cs \<and>
     mismatched res' = mismatched res @ with_status MISMATCH cs \<and>
     errors res' = errors res @ with_status ERROR cs \<and>
     total_matched (summary res') = total_matched (summary res) + length (with_status MATCH cs) \<and>
     total_mismatched (summary res') =
       total_mismatched (summary res) + length (with_status MISMATCH cs) \<and>
     total_errors (summary res') = total_errors (summary res) + length (with_status ERROR cs) \<and>
     total_amount_variance (summary res') =
       total_amount_variance (summary res) + sum_list (map variance_of (with_status MISMATCH cs)) \<and>
     high_severity_issues (summary res') =
       high_severity_issues (summary res)
         + length (with_severity HIGH (concat (map get_header_issues (with_status MISMATCH cs)))) \<and>
     medium_severity_issues (summary res') =
       medium_severity_issues (summary res)
         + length (with_severity MEDIUM (concat (map get_header_issues (with_status MISMATCH cs)))) \<and>
     list_all variance_defined (with_status MISMATCH cs)"


definition sub_issues :: "line_item_mismatch \<Rightarrow> issue list" where
  "sub_issues m = (case m of ITEM_MISMATCH code descr details \<Rightarrow> details | _ \<Rightarrow> [])"

definition line_item_sub_issues :: "comparison \<Rightarrow> issue list" where
  "line_item_sub_issues c =
     (case c of ErrorResult e \<Rightarrow> []
      | Compared r \<Rightarrow> concat (map sub_issues (mismatches (line_item_comparison r))))"

definition same_header :: "invoice \<Rightarrow> purchase_order \<Rightarrow> bool" where
  "same_header invoice po \<longleftrightarrow>
     i_vendor_name invoice = p_vendor_name po \<and> i_vendor_id invoice = p_vendor_id po \<and>
     i_currency invoice = p_currency po \<and> i_subtotal invoice = p_subtotal po \<and>
     i_tax invoice = p_tax po \<and> i_total_amount invoice = p_total_amount po"

section \<open>Example documents\<close>

text \<open>
  One purchase order and four invoices: one that matches it with the line items in another
  order, one with a higher unit price, one that refers to a purchase order that was never
  loaded, and one with fields missing. The matcher holds the first three.
\<close>

definition widget :: line_item where
  "widget = \<lparr>item_code = ''IT-001'', description = ''Widget'', quantity = 10,
              unit_price = 100, line_total = 1000\<rparr>"

definition cable :: line_item where
  "cable = \<lparr>item_code = ''IT-002'', description = ''Cable'', quantity = 4,
             unit_price = 25, line_total = 100\<rparr>"

definition example_po :: purchase_order where
  "example_po = \<lparr>p_po_number = ''PO-2024-01001'', p_po_date = Some ''2024-01-05'',
     p_vendor_name = Some ''Acme'', p_vendor_id = Some ''V001'', p_currency = Some ''USD'',
     p_subtotal = Some 1100, p_tax = Some 0, p_total_amount = Some 1100,
     p_line_items = Some [widget, cable]\<rparr>"

definition matching_invoice :: invoice where
  "matching_invoice = \<lparr>i_invoice_number = ''INV-005001'', i_invoice_date = Some ''2024-02-01'',
     i_po_reference = Some ''PO-2024-01001'',
     i_vendor_name = Some ''Acme'', i_vendor_id = Some ''V001'', i_currency = Some ''USD'',
     i_subtotal = Some 1100, i_tax = Some 0, i_total_amount = Some 1100,
     i_line_items = Some [cable, widget]\<rparr>"

definition overpriced_invoice :: invoice where
  "overpriced_invoice = matching_invoice\<lparr>i_invoice_number := ''INV-005002'',
     i_subtotal := Some 1200, i_tax := Some (1/2), i_total_amount := Some (2401/2),
     i_line_items := Some [widget\<lparr>unit_price := 110, line_total := 1100\<rparr>, cable]\<rparr>"

definition orphan_invoice :: invoice where
  "orphan_invoice = matching_invoice\<lparr>i_invoice_number := ''INV-005003'',
     i_po_reference := Some ''PO-2024-99999'', i_total_amount := Some 999999\<rparr>"

definition example_matcher :: matcher where
  "example_matcher = \<lparr>invoices = [matching_invoice, overpriced_invoice, orphan_invoice],
     purchase_orders = [example_po],
     po_lookup = [''PO-2024-01001'' \<mapsto> example_po]\<rparr>"

definition partial_invoice :: invoice where
  "partial_invoice = matching_invoice\<lparr>i_invoice_number := ''INV-005004'',
     i_vendor_name := None, i_subtotal := None, i_tax := Some (1 / 100)\<rparr>"

text \<open>Two line items with one code, for a document that repeats a code.\<close>

definition gadget_one :: line_item where
  "gadget_one = \<lparr>item_code = ''IT-003'', description = ''Gadget'', quantity = 1,
                  unit_price = 5, line_total = 5\<rparr>"

definition gadget_two :: line_item where
  "gadget_two = gadget_one\<lparr>quantity := 2, line_total := 10\<rparr>"

section \<open>Auxiliary lemmas\<close>

lemma invoice_item_step_entry:
  "invoice_item_step lk acc x =
     (fst acc @ invoice_entry lk x, snd acc + (if invoice_entry lk x = [] then 1 else 0))"
  by (simp add: invoice_item_step_def invoice_entry_def split: option.splits)

lemma foldl_invoice_item_step:
  "foldl (invoice_item_step lk) acc xs =
     (fst acc @ concat (map (invoice_entry lk) xs),
      snd acc + length (filter (\<lambda>x. invoice_entry lk x = []) xs))"
  by (induction xs arbitrary: acc) (simp_all add: invoice_item_step_entry)

lemma foldl_po_item_step:
  "foldl (po_item_step S) acc ys = acc @ map po_only_entry (filter (\<lambda>p. item_code p \<notin> S) ys)"
  by (induction ys arbitrary: acc) (simp_all add: po_item_step_def po_only_entry_def)

lemma foldl_upd_map_of:
  "foldl (\<lambda>m x. m(key x \<mapsto> x)) m0 xs = m0 ++ map_of (rev (map (\<lambda>x. (key x, x)) xs))"
proof (induction xs arbitrary: m0)
  case Nil
  show ?case by simp
next
  case (Cons x xs)
  let ?M = "map_of (rev (map (\<lambda>x. (key x, x)) xs))"
  have "foldl (\<lambda>m x. m(key x \<mapsto> x)) m0 (x # xs) = m0(key x \<mapsto> x) ++ ?M"
    by (simp only: foldl.simps Cons.IH)
  also have "\<dots> = m0 ++ (map_of [(key x, x)] ++ ?M)"
    by (rule ext) (simp add: map_add_def split: option.splits)
  also have "\<dots> = m0 ++ map_of (rev (map (\<lambda>x. (key x, x)) (x # xs)))"
    by (simp only: list.map rev.simps map_of_append)
  finally show ?case .
qed

lemma po_items_lookup_map_of:
  "po_items_lookup po_items = map_of (rev (map (\<lambda>p. (item_code p, p)) po_items))"
  by (simp add: po_items_lookup_def foldl_upd_map_of)

lemma po_items_lookup_Some:
  "po_items_lookup po_items code = Some p \<Longrightarrow> p \<in> set po_items \<and> item_code p = code"
  by (auto simp: po_items_lookup_map_of dest!: map_of_SomeD)

lemma po_items_lookup_None:
  "po_items_lookup po_items code = None \<longleftrightarrow> code \<notin> item_code ` set po_items"
  by (simp add: po_items_lookup_map_of map_of_eq_None_iff image_image)

lemma mismatches_compare_line_items:
  "mismatches (compare_line_items xs ys) =
     concat (map (invoice_entry (po_items_lookup ys)) xs) @
     map po_only_entry (filter (\<lambda>p. item_code p \<notin> item_code ` set xs) ys)"
  by (simp add: compare_line_items_def Let_def foldl_invoice_item_step foldl_po_item_step)

lemma matched_items_compare_line_items:
  "matched_items (compare_line_items xs ys) =
     length (filter (\<lambda>x. invoice_entry (po_items_lookup ys) x = []) xs)"
  by (simp add: compare_line_items_def Let_def foldl_invoice_item_step)

lemma has_line_item_issues_iff:
  "has_line_item_issues (compare_line_items xs ys) \<longleftrightarrow> mismatches (compare_line_items xs ys) \<noteq> []"
  by (simp add: compare_line_items_def Let_def)


lemma item_issues_Nil_iff:
  "item_issues a b = [] \<longleftrightarrow>
     quantity a = quantity b \<and> \<bar>unit_price a - unit_price b\<bar> \<le> 1 / 100 \<and>
     \<bar>line_total a - line_total b\<bar> \<le> 1 / 100"
  by (auto simp: item_issues_def)

lemma same_items_invoice_entry:
  assumes "same_items_per_code xs ys" and "a \<in> set xs"
  shows "invoice_entry (po_items_lookup ys) a = []"
proof -
  from assms have "item_code a \<in> item_code ` set ys"
    by (auto simp: same_items_per_code_def)
  then obtain b where b: "po_items_lookup ys (item_code a) = Some b"
    using po_items_lookup_None [of ys "item_code a"] by (cases "po_items_lookup ys (item_code a)") auto
  then have "b \<in> set ys" "item_code b = item_code a"
    using po_items_lookup_Some by blast+
  with assms have "item_issues a b = []"
    by (auto simp: same_items_per_code_def item_issues_Nil_iff)
  with b show ?thesis
    by (simp add: invoice_entry_def)
qed

lemma same_items_no_mismatch:
  assumes "same_items_per_code xs ys"
  shows "mismatches (compare_line_items xs ys) = []"
    and "matched_items (compare_line_items xs ys) = length xs"
proof -
  have entries: "\<forall>a \<in> set xs. invoice_entry (po_items_lookup ys) a = []"
    using assms same_items_invoice_entry by blast
  have "filter (\<lambda>p. item_code p \<notin> item_code ` set xs) ys = []"
    using assms by (auto simp: same_items_per_code_def filter_empty_conv)
  with entries show "mismatches (compare_line_items xs ys) = []"
    by (simp add: mismatches_compare_line_items)
  from entries show "matched_items (compare_line_items xs ys) = length xs"
    by (simp add: matched_items_compare_line_items)
qed

lemma same_items_per_code_mset:
  assumes "mset xs' = mset xs" and "mset ys' = mset ys"
  shows "same_items_per_code xs' ys' = same_items_per_code xs ys"
proof -
  have "set xs' = set xs" "set ys' = set ys"
    using assms by (metis set_mset_mset)+
  then show ?thesis
    by (simp add: same_items_per_code_def)
qed

lemma identical_items_same_per_code:
  assumes "mset xs = mset ys" and "distinct (map item_code xs)"
  shows "same_items_per_code xs ys"
proof -
  have s: "set ys = set xs"
    using assms(1) by (metis set_mset_mset)
  have "a = b" if "a \<in> set xs" "b \<in> set xs" "item_code a = item_code b" for a b
    using that assms(2) by (meson distinct_map inj_onD)
  with s show ?thesis
    by (auto simp: same_items_per_code_def)
qed

lemma compare_resolved:
  "resolve_po self invoice = Some (ref, po) \<Longrightarrow>
     compare_invoice_with_po self invoice = Compared (compare_with invoice ref po)"
  by (auto simp: resolve_po_def compare_invoice_with_po_def split: option.splits if_splits)

lemma compare_unresolved:
  "resolve_po self invoice = None \<Longrightarrow>
     compare_invoice_with_po self invoice =
       ErrorResult \<lparr>e_invoice_number = i_invoice_number invoice,
                    e_po_reference =
                      (case i_po_reference invoice of None \<Rightarrow> None
                       | Some ref \<Rightarrow> if ref = [] then None else Some ref),
                    e_status = ERROR,
                    error =
                      (case i_po_reference invoice of None \<Rightarrow> ''Invoice has no PO reference''
                       | Some ref \<Rightarrow> if ref = [] then ''Invoice has no PO reference''
                                     else ''Referenced PO '' @ ref @ '' not found'')\<rparr>"
  by (auto simp: resolve_po_def compare_invoice_with_po_def split: option.splits if_splits)

lemma status_of_compare:
  "status_of (compare_invoice_with_po self invoice) =
     (case resolve_po self invoice of
        None \<Rightarrow> ERROR
      | Some (ref, po) \<Rightarrow>
          (if header_checks invoice po \<noteq> [] \<or>
              mismatches (compare_line_items (get_or_empty (i_line_items invoice))
                            (get_or_empty (p_line_items po))) \<noteq> []
           then MISMATCH else MATCH))"
proof (cases "resolve_po self invoice")
  case None
  then show ?thesis
    by (simp add: compare_unresolved status_of_def)
next
  case (Some p)
  then obtain ref po where "resolve_po self invoice = Some (ref, po)"
    by (cases p) simp
  then show ?thesis
    by (simp add: compare_resolved status_of_def compare_with_def Let_def has_line_item_issues_iff)
qed




lemma header_checks_severity:
  "i \<in> set (header_checks invoice po) \<Longrightarrow> severity i = Some HIGH \<or> severity i = Some MEDIUM"
  unfolding header_checks_def by (auto split: if_splits)

lemma foldl_count_severity:
  "foldl count_severity s is =
     s\<lparr>high_severity_issues := high_severity_issues s + length (with_severity HIGH is),
       medium_severity_issues := medium_severity_issues s + length (with_severity MEDIUM is)\<rparr>"
  by (induction "is" arbitrary: s) (simp_all add: count_severity_def with_severity_def)

lemma add_variance_Inr:
  "add_variance c s = Inr s' \<longleftrightarrow>
     variance_defined c \<and>
     s' = s\<lparr>total_amount_variance := total_amount_variance s + variance_of c\<rparr>"
  by (auto simp: add_variance_def variance_defined_def variance_of_def get_or_0_def
      split: comparison.splits option.splits)

lemma add_variance_Inl:
  "add_variance c s = Inl e \<longleftrightarrow> \<not> variance_defined c \<and> e = TypeError"
  by (auto simp: add_variance_def variance_defined_def split: comparison.splits option.splits)

lemma classify_MATCH:
  "status_of c = MATCH \<Longrightarrow>
     classify res c =
       Inr (res\<lparr>matched := matched res @ [c],
                summary := (summary res)\<lparr>total_matched := total_matched (summary res) + 1\<rparr>\<rparr>)"
  by (simp add: classify_def)

lemma classify_ERROR:
  "status_of c = ERROR \<Longrightarrow>
     classify res c =
       Inr (res\<lparr>errors := errors res @ [c],
                summary := (summary res)\<lparr>total_errors := total_errors (summary res) + 1\<rparr>\<rparr>)"
  by (simp add: classify_def)

lemma classify_MISMATCH:
  assumes m: "status_of c = MISMATCH"
  shows "classify res c =
       (if variance_defined c
        then Inr (res\<lparr>mismatched := mismatched res @ [c],
                     summary := (summary res)
                       \<lparr>total_mismatched := total_mismatched (summary res) + 1,
                        total_amount_variance :=
                          total_amount_variance (summary res) + variance_of c,
                        high_severity_issues :=
                          high_severity_issues (summary res)
                            + length (with_severity HIGH (get_header_issues c)),
                        medium_severity_issues :=
                          medium_severity_issues (summary res)
                            + length (with_severity MEDIUM (get_header_issues c))\<rparr>\<rparr>)
        else Inl TypeError)"
proof (cases "variance_defined c")
  case True
  then have "add_variance c ((summary res)\<lparr>total_mismatched := total_mismatched (summary res) + 1\<rparr>) =
      Inr ((summary res)\<lparr>total_mismatched := total_mismatched (summary res) + 1,
             total_amount_variance := total_amount_variance (summary res) + variance_of c\<rparr>)"
    by (simp add: add_variance_Inr)
  with True show ?thesis
    by (simp add: classify_def foldl_count_severity m)
next
  case False
  then have "add_variance c ((summary res)\<lparr>total_mismatched := total_mismatched (summary res) + 1\<rparr>) =
      Inl TypeError"
    by (simp add: add_variance_Inl)
  with False show ?thesis
    by (simp add: classify_def m)
qed

lemma loop_post_Nil: "loop_post res [] res"
  by (simp add: loop_post_def with_status_def with_severity_def)

lemma loop_post_step:
  assumes "classify res c = Inr res1" and "loop_post res1 cs res'"
  shows "loop_post res (c # cs) res'"
proof (cases "status_of c")
  case MATCH
  with assms(1) have "res1 = res\<lparr>matched := matched res @ [c],
      summary := (summary res)\<lparr>total_matched := total_matched (summary res) + 1\<rparr>\<rparr>"
    by (simp add: classify_MATCH)
  with assms(2) MATCH show ?thesis
    by (simp add: loop_post_def with_status_def)
next
  case MISMATCH
  with assms(1) have d: "variance_defined c"
    by (simp add: classify_MISMATCH split: if_splits)
  with assms(1) MISMATCH have "res1 = res\<lparr>mismatched := mismatched res @ [c],
      summary := (summary res)
        \<lparr>total_mismatched := total_mismatched (summary res) + 1,
         total_amount_variance := total_amount_variance (summary res) + variance_of c,
         high_severity_issues :=
           high_severity_issues (summary res) + length (with_severity HIGH (get_header_issues c)),
         medium_severity_issues :=
           medium_severity_issues (summary res)
             + length (with_severity MEDIUM (get_header_issues c))\<rparr>\<rparr>"
    by (simp add: classify_MISMATCH)
  with assms(2) MISMATCH d show ?thesis
    by (simp add: loop_post_def with_status_def with_severity_def)
next
  case ERROR
  with assms(1) have "res1 = res\<lparr>errors := errors res @ [c],
      summary := (summary res)\<lparr>total_errors := total_errors (summary res) + 1\<rparr>\<rparr>"
    by (simp add: classify_ERROR)
  with assms(2) ERROR show ?thesis
    by (simp add: loop_post_def with_status_def)
qed

lemma find_all_loop_post:
  "find_all_loop self invs res = Inr res' \<Longrightarrow>
     loop_post res (map (compare_invoice_with_po self) invs) res'"
proof (induction invs arbitrary: res)
  case Nil
  then show ?case by (simp add: loop_post_Nil)
next
  case (Cons invoice invs)
  then obtain res1 where
    step: "classify res (compare_invoice_with_po self invoice) = Inr res1" and
    rest: "find_all_loop self invs res1 = Inr res'"
    by (auto split: sum.splits)
  from Cons.IH [OF rest] step show ?case
    by (simp add: loop_post_step)
qed

lemma classify_returns:
  "(status_of c = MISMATCH \<longrightarrow> variance_defined c) \<Longrightarrow> \<exists>res1. classify res c = Inr res1"
  by (cases "status_of c") (simp_all add: classify_MATCH classify_MISMATCH classify_ERROR)

lemma find_all_loop_returns:
  "list_all variance_defined (with_status MISMATCH (map (compare_invoice_with_po self) invs)) \<Longrightarrow>
     \<exists>res'. find_all_loop self invs res = Inr res'"
proof (induction invs arbitrary: res)
  case Nil
  then show ?case by simp
next
  case (Cons invoice invs)
  from Cons.prems have "status_of (compare_invoice_with_po self invoice) = MISMATCH \<longrightarrow>
      variance_defined (compare_invoice_with_po self invoice)"
    by (auto simp: with_status_def)
  then obtain res1 where step: "classify res (compare_invoice_with_po self invoice) = Inr res1"
    using classify_returns by blast
  from Cons.prems have "list_all variance_defined
      (with_status MISMATCH (map (compare_invoice_with_po self) invs))"
    by (simp add: with_status_def split: if_splits)
  from Cons.IH [OF this, of res1] step show ?case
    by simp
qed

lemma find_all_loop_raises:
  "\<not> list_all variance_defined (with_status MISMATCH (map (compare_invoice_with_po self) invs)) \<Longrightarrow>
     find_all_loop self invs res = Inl TypeError"
proof (induction invs arbitrary: res)
  case Nil
  then show ?case by (simp add: with_status_def)
next
  case (Cons invoice invs)
  let ?c = "compare_invoice_with_po self invoice"
  show ?case
  proof (cases "status_of ?c = MISMATCH \<and> \<not> variance_defined ?c")
    case True
    then show ?thesis by (simp add: classify_MISMATCH)
  next
    case False
    then obtain res1 where step: "classify res ?c = Inr res1"
      using classify_returns by blast
    from False Cons.prems have "\<not> list_all variance_defined
        (with_status MISMATCH (map (compare_invoice_with_po self) invs))"
      by (auto simp: with_status_def split: if_splits)
    from Cons.IH [OF this, of res1] step show ?thesis
      by simp
  qed
qed

lemma resolve_po_cases:
  obtains (unresolved) "resolve_po self invoice = None"
  | (resolved) ref po where "resolve_po self invoice = Some (ref, po)"
  by (cases "resolve_po self invoice") auto

lemma resolve_po_Some_iff:
  "resolve_po self invoice = Some (ref, po) \<longleftrightarrow>
     i_po_reference invoice = Some ref \<and> ref \<noteq> [] \<and> po_lookup self ref = Some po"
  by (auto simp: resolve_po_def split: option.splits if_splits)

lemma resolve_po_None_iff:
  "resolve_po self invoice = None \<longleftrightarrow>
     i_po_reference invoice = None \<or> i_po_reference invoice = Some [] \<or>
     (\<exists>ref. i_po_reference invoice = Some ref \<and> po_lookup self ref = None)"
  by (auto simp: resolve_po_def split: option.splits if_splits)

lemma with_status_lengths:
  "length (with_status MATCH cs) + length (with_status MISMATCH cs) + length (with_status ERROR cs)
     = length cs"
proof (induction cs)
  case Nil
  show ?case by (simp add: with_status_def)
next
  case (Cons c cs)
  then show ?case
    by (cases "status_of c") (simp_all add: with_status_def)
qed

lemma with_status_mset:
  "mset (with_status MATCH cs) + mset (with_status MISMATCH cs) + mset (with_status ERROR cs)
     = mset cs"
proof (induction cs)
  case Nil
  show ?case by (simp add: with_status_def)
next
  case (Cons c cs)
  then show ?case
    by (cases "status_of c") (simp_all add: with_status_def)
qed

lemma find_all_mismatches_post:
  "find_all_mismatches self = Inr res \<Longrightarrow>
     loop_post (initial_results self) (map (compare_invoice_with_po self) (invoices self)) res"
  by (simp add: find_all_mismatches_def find_all_loop_post)


lemma get_header_issues_compare:
  "get_header_issues (compare_invoice_with_po self invoice) =
     (case resolve_po self invoice of None \<Rightarrow> [] | Some (ref, po) \<Rightarrow> header_checks invoice po)"
proof (cases rule: resolve_po_cases [of self invoice])
  case unresolved
  then show ?thesis
    by (simp add: compare_unresolved get_header_issues_def)
next
  case (resolved ref po)
  then show ?thesis
    by (simp add: compare_resolved get_header_issues_def compare_with_def Let_def)
qed

lemma header_issues_severity:
  "i \<in> set (get_header_issues (compare_invoice_with_po self invoice)) \<Longrightarrow>
     severity i = Some HIGH \<or> severity i = Some MEDIUM"
  by (auto simp: get_header_issues_compare split: option.splits dest: header_checks_severity)

lemma header_issues_only_MISMATCH:
  "status_of (compare_invoice_with_po self invoice) \<noteq> MISMATCH \<Longrightarrow>
     get_header_issues (compare_invoice_with_po self invoice) = []"
  by (auto simp: get_header_issues_compare status_of_compare split: option.splits if_splits)

lemma with_severity_lengths:
  "\<forall>i \<in> set is. severity i = Some HIGH \<or> severity i = Some MEDIUM \<Longrightarrow>
     length (with_severity HIGH is) + length (with_severity MEDIUM is) = length is"
  by (induction "is") (auto simp: with_severity_def)

lemma item_issues_severity: "i \<in> set (item_issues a b) \<Longrightarrow> severity i = None"
  by (auto simp: item_issues_def split: if_splits)

lemma sub_issues_severity:
  "m \<in> set (mismatches (compare_line_items xs ys)) \<Longrightarrow> i \<in> set (sub_issues m) \<Longrightarrow>
     severity i = None"
  by (auto simp: mismatches_compare_line_items invoice_entry_def po_only_entry_def sub_issues_def
      split: option.splits if_splits dest: item_issues_severity)

lemma line_item_sub_issues_severity:
  "i \<in> set (line_item_sub_issues (compare_invoice_with_po self invoice)) \<Longrightarrow> severity i = None"
proof (cases rule: resolve_po_cases [of self invoice])
  case unresolved
  assume "i \<in> set (line_item_sub_issues (compare_invoice_with_po self invoice))"
  with unresolved show ?thesis
    by (simp add: compare_unresolved line_item_sub_issues_def)
next
  case (resolved ref po)
  assume "i \<in> set (line_item_sub_issues (compare_invoice_with_po self invoice))"
  with resolved show ?thesis
    by (auto simp: compare_resolved line_item_sub_issues_def compare_with_def Let_def
        dest: sub_issues_severity)
qed

lemma compare_invoice_with_po_invoices_update [simp]:
  "compare_invoice_with_po (self\<lparr>invoices := invs\<rparr>) = compare_invoice_with_po self"
  by (rule ext) (simp add: compare_invoice_with_po_def split: option.splits)

lemma find_all_loop_invoices_update [simp]:
  "find_all_loop (self\<lparr>invoices := invs\<rparr>) xs res = find_all_loop self xs res"
  by (induction xs arbitrary: res) (simp_all split: sum.splits)

lemma find_all_loop_append:
  "find_all_loop self (xs @ ys) res =
     (case find_all_loop self xs res of Inl e \<Rightarrow> Inl e | Inr res1 \<Rightarrow> find_all_loop self ys res1)"
  by (induction xs arbitrary: res) (simp_all split: sum.splits)

lemma same_header_no_issues: "same_header invoice po \<Longrightarrow> header_checks invoice po = []"
  by (simp add: same_header_def header_checks_def)

lemma compare_with_fields:
  "header_issues (compare_with invoice ref po) = header_checks invoice po"
  "line_item_comparison (compare_with invoice ref po) =
     compare_line_items (get_or_empty (i_line_items invoice)) (get_or_empty (p_line_items po))"
  "total_issues (compare_with invoice ref po) =
     length (header_checks invoice po) +
     length (mismatches (compare_line_items (get_or_empty (i_line_items invoice))
                           (get_or_empty (p_line_items po))))"
  "status (compare_with invoice ref po) =
     (if header_checks invoice po \<noteq> [] \<or>
         mismatches (compare_line_items (get_or_empty (i_line_items invoice))
                       (get_or_empty (p_line_items po))) \<noteq> []
      then MISMATCH else MATCH)"
  by (simp_all add: compare_with_def Let_def has_line_item_issues_iff)

lemma summary_lines_returns:
  "total_invoices res \<noteq> 0 \<Longrightarrow> \<exists>ls. summary_lines fm res = Inr ls"
  by (simp add: summary_lines_def then_do_def py_truediv_def)

lemma summary_lines_raises:
  "total_invoices res = 0 \<Longrightarrow> summary_lines fm res = Inl ZeroDivisionError"
  by (simp add: summary_lines_def then_do_def py_truediv_def)

lemma find_all_mismatches_returns_iff:
  "(\<exists>res. find_all_mismatches self = Inr res) \<longleftrightarrow>
     list_all variance_defined
       (with_status MISMATCH (map (compare_invoice_with_po self) (invoices self)))"
proof
  assume "\<exists>res. find_all_mismatches self = Inr res"
  then obtain res where "find_all_mismatches self = Inr res" ..
  then have "loop_post (initial_results self)
      (map (compare_invoice_with_po self) (invoices self)) res"
    by (rule find_all_mismatches_post)
  then show "list_all variance_defined
      (with_status MISMATCH (map (compare_invoice_with_po self) (invoices self)))"
    by (simp add: loop_post_def)
next
  assume "list_all variance_defined
      (with_status MISMATCH (map (compare_invoice_with_po self) (invoices self)))"
  then show "\<exists>res. find_all_mismatches self = Inr res"
    unfolding find_all_mismatches_def by (rule find_all_loop_returns)
qed

lemma error_invoice_skipped:
  assumes e: "status_of (compare_invoice_with_po self invoice) = ERROR"
    and r: "find_all_mismatches (self\<lparr>invoices := before @ after\<rparr>) = Inr r"
  shows "\<exists>r'. find_all_mismatches (self\<lparr>invoices := before @ invoice # after\<rparr>) = Inr r' \<and>
           matched r' = matched r \<and> mismatched r' = mismatched r \<and>
           total_amount_variance (summary r') = total_amount_variance (summary r) \<and>
           high_severity_issues (summary r') = high_severity_issues (summary r) \<and>
           medium_severity_issues (summary r') = medium_severity_issues (summary r) \<and>
           total_errors (summary r') = total_errors (summary r) + 1 \<and>
           total_invoices r' = total_invoices r + 1 \<and>
           errors r' = with_status ERROR (map (compare_invoice_with_po self) before)
                        @ compare_invoice_with_po self invoice
                        # with_status ERROR (map (compare_invoice_with_po self) after)"
proof -
  let ?cmp = "compare_invoice_with_po self"
  let ?s1 = "self\<lparr>invoices := before @ after\<rparr>"
  let ?s2 = "self\<lparr>invoices := before @ invoice # after\<rparr>"
  have same: "with_status s (map ?cmp before @ ?cmp invoice # map ?cmp after) =
      with_status s (map ?cmp before @ map ?cmp after)" if "s \<noteq> ERROR" for s
    using that e by (simp add: with_status_def)
  have err: "with_status ERROR (map ?cmp before @ ?cmp invoice # map ?cmp after) =
      with_status ERROR (map ?cmp before) @ ?cmp invoice # with_status ERROR (map ?cmp after)"
    using e by (simp add: with_status_def)
  have p1: "loop_post (initial_results ?s1) (map ?cmp (before @ after)) r"
    using find_all_mismatches_post [OF r] by simp
  then have "list_all variance_defined (with_status MISMATCH (map ?cmp (before @ after)))"
    by (simp add: loop_post_def)
  then have "list_all variance_defined
      (with_status MISMATCH (map (compare_invoice_with_po ?s2) (invoices ?s2)))"
    by (simp add: same)
  then obtain r' where r': "find_all_mismatches ?s2 = Inr r'"
    using find_all_mismatches_returns_iff [of ?s2] by blast
  have p2: "loop_post (initial_results ?s2) (map ?cmp (before @ invoice # after)) r'"
    using find_all_mismatches_post [OF r'] by simp
  from p1 p2 have "matched r' = matched r \<and> mismatched r' = mismatched r \<and>
      total_amount_variance (summary r') = total_amount_variance (summary r) \<and>
      high_severity_issues (summary r') = high_severity_issues (summary r) \<and>
      medium_severity_issues (summary r') = medium_severity_issues (summary r) \<and>
      total_errors (summary r') = total_errors (summary r) + 1 \<and>
      total_invoices r' = total_invoices r + 1 \<and>
      errors r' = with_status ERROR (map ?cmp before) @ ?cmp invoice
                    # with_status ERROR (map ?cmp after)"
    using e by (simp add: loop_post_def initial_results_def same err with_status_def)
  with r' show ?thesis
    by blast
qed

subsection \<open>The example documents, evaluated\<close>

lemma example_invoices:
  "invoices example_matcher = [matching_invoice, overpriced_invoice, orphan_invoice]"
  by (simp add: example_matcher_def)

lemma example_lookup:
  "po_lookup example_matcher ''PO-2024-01001'' = Some example_po"
  "po_lookup example_matcher ''PO-2024-99999'' = None"
  by (simp_all add: example_matcher_def)

lemma example_resolve:
  "resolve_po example_matcher matching_invoice = Some (''PO-2024-01001'', example_po)"
  "resolve_po example_matcher overpriced_invoice = Some (''PO-2024-01001'', example_po)"
  "resolve_po example_matcher orphan_invoice = None"
  by (simp_all add: resolve_po_def example_lookup matching_invoice_def overpriced_invoice_def
      orphan_invoice_def)

lemma example_line_items:
  "mismatches (compare_line_items [cable, widget] [widget, cable]) = []"
  "mismatches (compare_line_items [widget\<lparr>unit_price := 110, line_total := 1100\<rparr>, cable]
     [widget, cable]) =
     [ITEM_MISMATCH ''IT-001'' ''Widget''
        [\<lparr>field = ''unit_price'', invoice_value = PyNum 110, po_value = PyNum 100,
          difference = Some (PyNum 10), severity = None\<rparr>,
         \<lparr>field = ''total'', invoice_value = PyNum 1100, po_value = PyNum 1000,
          difference = Some (PyNum 100), severity = None\<rparr>]]"
  by (simp_all add: mismatches_compare_line_items po_items_lookup_def invoice_entry_def
      item_issues_def widget_def cable_def)

lemma example_header_checks:
  "header_checks matching_invoice example_po = []"
  "header_checks overpriced_invoice example_po =
     [\<lparr>field = ''subtotal'', invoice_value = PyNum 1200, po_value = PyNum 1100,
       difference = Some (PyNum 100), severity = Some HIGH\<rparr>,
      \<lparr>field = ''tax'', invoice_value = PyNum (1 / 2), po_value = PyNum 0,
       difference = Some (PyNum (1 / 2)), severity = Some MEDIUM\<rparr>,
      \<lparr>field = ''total_amount'', invoice_value = PyNum (2401 / 2), po_value = PyNum 1100,
       difference = Some (PyNum (201 / 2)), severity = Some HIGH\<rparr>]"
  by (simp_all add: header_checks_def matching_invoice_def overpriced_invoice_def example_po_def
      get_or_0_def get_num_def)

lemma example_fields:
  "i_total_amount overpriced_invoice = Some (2401 / 2)"
  "p_total_amount example_po = Some 1100"
  "get_or_empty (i_line_items matching_invoice) = [cable, widget]"
  "get_or_empty (i_line_items overpriced_invoice) =
     [widget\<lparr>unit_price := 110, line_total := 1100\<rparr>, cable]"
  "get_or_empty (p_line_items example_po) = [widget, cable]"
  by (simp_all add: get_or_empty_def matching_invoice_def overpriced_invoice_def example_po_def)

lemma example_statuses:
  "status_of (compare_invoice_with_po example_matcher matching_invoice) = MATCH"
  "status_of (compare_invoice_with_po example_matcher overpriced_invoice) = MISMATCH"
  "status_of (compare_invoice_with_po example_matcher orphan_invoice) = ERROR"
proof -
  note items = example_fields
  show "status_of (compare_invoice_with_po example_matcher matching_invoice) = MATCH"
    by (simp add: status_of_compare example_resolve example_header_checks items example_line_items)
  show "status_of (compare_invoice_with_po example_matcher overpriced_invoice) = MISMATCH"
    by (simp add: status_of_compare example_resolve example_header_checks)
  show "status_of (compare_invoice_with_po example_matcher orphan_invoice) = ERROR"
    by (simp add: status_of_compare example_resolve)
qed

lemma example_variance_defined:
  "variance_defined (compare_invoice_with_po example_matcher overpriced_invoice)"
  by (simp add: compare_resolved [OF example_resolve(2)] variance_defined_def compare_with_def
      Let_def example_fields)

lemma example_returns: "\<exists>res. find_all_mismatches example_matcher = Inr res"
  by (simp add: find_all_mismatches_returns_iff example_invoices with_status_def
      example_statuses example_variance_defined)

lemma example_lists:
  assumes "find_all_mismatches example_matcher = Inr res"
  shows "matched res = [compare_invoice_with_po example_matcher matching_invoice]"
    and "mismatched res = [compare_invoice_with_po example_matcher overpriced_invoice]"
    and "errors res = [compare_invoice_with_po example_matcher orphan_invoice]"
  using find_all_mismatches_post [OF assms]
  by (simp_all add: loop_post_def initial_results_def example_invoices with_status_def
      example_statuses)

text \<open>
  A mismatched invoice without \<^verbatim>\<open>total_amount\<close> stops the whole run: the header check
  reads the missing total as 0, the variance does not.
\<close>

lemma missing_total_raises:
  "find_all_mismatches (example_matcher\<lparr>invoices := [matching_invoice\<lparr>i_total_amount := None\<rparr>]\<rparr>)
     = Inl TypeError"
proof -
  let ?invoice = "matching_invoice\<lparr>i_total_amount := None\<rparr>"
  have res: "resolve_po example_matcher ?invoice = Some (''PO-2024-01001'', example_po)"
    by (simp add: resolve_po_def example_lookup matching_invoice_def)
  have "header_checks ?invoice example_po \<noteq> []"
    by (simp add: header_checks_def matching_invoice_def example_po_def get_or_0_def)
  then have st: "status_of (compare_invoice_with_po example_matcher ?invoice) = MISMATCH"
    by (simp add: status_of_compare res)
  have "\<not> variance_defined (compare_invoice_with_po example_matcher ?invoice)"
    by (simp add: compare_resolved [OF res] variance_defined_def compare_with_def Let_def)
  with st show ?thesis
    by (simp add: find_all_mismatches_def classify_MISMATCH)
qed

text \<open>\<open>load_data\<close> builds the example matcher, and fails when a file is missing.\<close>

lemma example_loaded:
  "load_data (Some [matching_invoice, overpriced_invoice, orphan_invoice]) (Some [example_po])
     = Inr example_matcher"
  by (simp add: load_data_def example_matcher_def example_po_def)

lemma missing_file_raises:
  "load_data None pos = Inl FileNotFoundError" "load_data (Some invs) None = Inl FileNotFoundError"
  by (simp_all add: load_data_def)

text \<open>
  A code that a document repeats: the lookup keeps the last PO item of the code, so two
  identical documents that repeat a code with different quantities do not match.
\<close>

lemma duplicate_code_last_wins:
  "mismatches (compare_line_items [gadget_one, gadget_two] [gadget_one, gadget_two]) =
     [ITEM_MISMATCH ''IT-003'' ''Gadget''
        [\<lparr>field = ''quantity'', invoice_value = PyInt 1, po_value = PyInt 2,
          difference = Some (PyInt (- 1)), severity = None\<rparr>,
         \<lparr>field = ''total'', invoice_value = PyNum 5, po_value = PyNum 10,
          difference = Some (PyNum (- 5)), severity = None\<rparr>]]"
  by (simp add: mismatches_compare_line_items po_items_lookup_def invoice_entry_def
      item_issues_def gadget_one_def gadget_two_def)

text \<open>
  The report of a run that returns can still fail: an amount that is absent from the invoice
  is \<^verbatim>\<open>None\<close> in its header issue, and the format \<^verbatim>\<open>:,.2f\<close> raises on it.
\<close>

lemma missing_amount_report_raises:
  "get_mismatch_summary_text fm (example_matcher\<lparr>invoices := [partial_invoice]\<rparr>) = Inl TypeError"
proof -
  let ?self = "example_matcher\<lparr>invoices := [partial_invoice]\<rparr>"
  have res: "resolve_po example_matcher partial_invoice = Some (''PO-2024-01001'', example_po)"
    by (simp add: resolve_po_def example_lookup partial_invoice_def matching_invoice_def)
  have hs: "header_checks partial_invoice example_po =
      [\<lparr>field = ''vendor_name'', invoice_value = PyNone, po_value = PyStr ''Acme'',
        difference = None, severity = Some HIGH\<rparr>,
       \<lparr>field = ''subtotal'', invoice_value = PyNone, po_value = PyNum 1100,
        difference = Some (PyNum (- 1100)), severity = Some HIGH\<rparr>]"
    by (simp add: header_checks_def partial_invoice_def matching_invoice_def example_po_def
        get_or_0_def get_num_def get_str_def)
  have c: "compare_invoice_with_po example_matcher partial_invoice =
      Compared (compare_with partial_invoice ''PO-2024-01001'' example_po)"
    using res by (rule compare_resolved)
  have st: "status_of (Compared (compare_with partial_invoice ''PO-2024-01001'' example_po)) = MISMATCH"
    by (simp add: status_of_def compare_with_fields hs)
  have totals: "invoice_total (compare_with partial_invoice ''PO-2024-01001'' example_po) = Some 1100"
      "po_total (compare_with partial_invoice ''PO-2024-01001'' example_po) = Some 1100"
    by (simp_all add: compare_with_def Let_def partial_invoice_def matching_invoice_def
        example_po_def)
  have vd: "variance_defined (Compared (compare_with partial_invoice ''PO-2024-01001'' example_po))"
    by (simp add: variance_defined_def totals)
  have run: "find_all_mismatches ?self =
      Inr ((initial_results ?self)
        \<lparr>mismatched := [Compared (compare_with partial_invoice ''PO-2024-01001'' example_po)],
         summary := (summary (initial_results ?self))
           \<lparr>total_mismatched := 1,
            total_amount_variance :=
              variance_of (Compared (compare_with partial_invoice ''PO-2024-01001'' example_po)),
            high_severity_issues := 2, medium_severity_issues := 0\<rparr>\<rparr>)"
    by (simp add: find_all_mismatches_def c classify_MISMATCH [OF st] vd hs
        get_header_issues_def compare_with_fields with_severity_def initial_results_def)
  have block: "mismatch_lines fm
      (Suc 0, Compared (compare_with partial_invoice ''PO-2024-01001'' example_po)) = Inl TypeError"
    by (simp add: mismatch_lines_def totals compare_with_fields hs then_do_def
        header_issue_line_def format_value_2f_def)
  show ?thesis
    by (simp add: get_mismatch_summary_text_def run then_do_def report_lines_def
        summary_lines_def py_truediv_def initial_results_def block)
qed

section \<open>The claims\<close>

text \<open>
  C1. Whenever \<open>find_all_mismatches\<close> returns, \<open>total_invoices\<close> is the number of invoices,
  and every invoice's result is in exactly one of the three lists: \<open>matched\<close>, \<open>mismatched\<close>
  and \<open>errors\<close> are the results with status MATCH, MISMATCH and ERROR, in the order of the
  invoices, and together they hold each result as often as the invoice list does. So the
  three lengths add up to \<open>total_invoices\<close>, and \<open>total_matched\<close>, \<open>total_mismatched\<close> and
  \<open>total_errors\<close> are the lengths of the three lists.
\<close>

theorem find_all_mismatches_partition:
  assumes "find_all_mismatches self = Inr res"
  shows "total_invoices res = length (invoices self) \<and>
         matched res = with_status MATCH (map (compare_invoice_with_po self) (invoices self)) \<and>
         mismatched res = with_status MISMATCH (map (compare_invoice_with_po self) (invoices self)) \<and>
         errors res = with_status ERROR (map (compare_invoice_with_po self) (invoices self)) \<and>
         mset (matched res) + mset (mismatched res) + mset (errors res) =
           mset (map (compare_invoice_with_po self) (invoices self)) \<and>
         length (matched res) + length (mismatched res) + length (errors res) = total_invoices res \<and>
         total_matched (summary res) = length (matched res) \<and>
         total_mismatched (summary res) = length (mismatched res) \<and>
         total_errors (summary res) = length (errors res)"
proof -
  let ?cs = "map (compare_invoice_with_po self) (invoices self)"
  have post: "loop_post (initial_results self) ?cs res"
    using assms by (rule find_all_mismatches_post)
  then have lists: "matched res = with_status MATCH ?cs" "mismatched res = with_status MISMATCH ?cs"
      "errors res = with_status ERROR ?cs"
    by (simp_all add: loop_post_def initial_results_def)
  from post have counts: "total_invoices res = length (invoices self)"
      "total_matched (summary res) = length (with_status MATCH ?cs)"
      "total_mismatched (summary res) = length (with_status MISMATCH ?cs)"
      "total_errors (summary res) = length (with_status ERROR ?cs)"
    by (simp_all add: loop_post_def initial_results_def)
  have "length (with_status MATCH ?cs) + length (with_status MISMATCH ?cs)
      + length (with_status ERROR ?cs) = length (invoices self)"
    using with_status_lengths [of ?cs] by simp
  with lists counts with_status_mset [of ?cs] show ?thesis
    by simp
qed

theorem find_all_mismatches_partition_witness:
  "\<exists>res. find_all_mismatches example_matcher = Inr res \<and>
     length (matched res) + length (mismatched res) + length (errors res) = 3 \<and>
     total_invoices res = 3 \<and>
     total_matched (summary res) = 1 \<and> total_mismatched (summary res) = 1 \<and>
     total_errors (summary res) = 1"
proof -
  obtain res where r: "find_all_mismatches example_matcher = Inr res"
    using example_returns ..
  from find_all_mismatches_partition [OF r] show ?thesis
    by (intro exI [of _ res]) (simp add: r example_invoices with_status_def example_statuses)
qed

text \<open>
  C2. An invoice whose \<^verbatim>\<open>po_reference\<close> is absent, empty or not in the index gets a result
  of the short shape with status ERROR: it has no header issues and no line-item
  comparison, its message is \<^verbatim>\<open>Invoice has no PO reference\<close> when no reference was given
  and names the reference otherwise. \<open>compare_invoice_with_po\<close> has no raising path, and
  the loop of \<open>find_all_mismatches\<close> goes on with the remaining invoices, having only
  appended the result to \<open>errors\<close> and counted it: a run that returns without the invoice
  returns with it, with the same matched and mismatched lists and the same variance.
\<close>

theorem unresolved_reference_is_error:
  assumes "i_po_reference invoice = None \<or> i_po_reference invoice = Some [] \<or>
           (\<exists>ref. i_po_reference invoice = Some ref \<and> po_lookup self ref = None)"
  shows "\<exists>e. compare_invoice_with_po self invoice = ErrorResult e \<and>
           e_status e = ERROR \<and> e_invoice_number e = i_invoice_number invoice \<and>
           (i_po_reference invoice = None \<or> i_po_reference invoice = Some [] \<longrightarrow>
              e_po_reference e = None \<and> error e = ''Invoice has no PO reference'') \<and>
           (\<forall>ref. i_po_reference invoice = Some ref \<and> ref \<noteq> [] \<longrightarrow>
              e_po_reference e = Some ref \<and>
              error e = ''Referenced PO '' @ ref @ '' not found'') \<and>
           status_of (ErrorResult e) = ERROR \<and>
           get_header_issues (ErrorResult e) = [] \<and>
           line_item_sub_issues (ErrorResult e) = [] \<and>
           find_all_loop self (invoice # rest) res =
             find_all_loop self rest
               (res\<lparr>errors := errors res @ [ErrorResult e],
                    summary := (summary res)\<lparr>total_errors := total_errors (summary res) + 1\<rparr>\<rparr>) \<and>
           (\<forall>before after r.
              find_all_mismatches (self\<lparr>invoices := before @ after\<rparr>) = Inr r \<longrightarrow>
              (\<exists>r'. find_all_mismatches (self\<lparr>invoices := before @ invoice # after\<rparr>) = Inr r' \<and>
                    matched r' = matched r \<and> mismatched r' = mismatched r \<and>
                    total_amount_variance (summary r') = total_amount_variance (summary r) \<and>
                    total_errors (summary r') = total_errors (summary r) + 1 \<and>
                    ErrorResult e \<in> set (errors r')))"
proof -
  from assms have none: "resolve_po self invoice = None"
    by (simp add: resolve_po_None_iff)
  let ?e = "\<lparr>e_invoice_number = i_invoice_number invoice,
              e_po_reference =
                (case i_po_reference invoice of None \<Rightarrow> None
                 | Some ref \<Rightarrow> if ref = [] then None else Some ref),
              e_status = ERROR,
              error =
                (case i_po_reference invoice of None \<Rightarrow> ''Invoice has no PO reference''
                 | Some ref \<Rightarrow> if ref = [] then ''Invoice has no PO reference''
                               else ''Referenced PO '' @ ref @ '' not found'')\<rparr>"
  have c: "compare_invoice_with_po self invoice = ErrorResult ?e"
    using none by (rule compare_unresolved)
  have st: "status_of (ErrorResult ?e) = ERROR"
    by (simp add: status_of_def)
  have msg: "i_po_reference invoice = None \<or> i_po_reference invoice = Some [] \<longrightarrow>
      e_po_reference ?e = None \<and> error ?e = ''Invoice has no PO reference''"
    by auto
  have msg': "\<forall>ref. i_po_reference invoice = Some ref \<and> ref \<noteq> [] \<longrightarrow>
      e_po_reference ?e = Some ref \<and> error ?e = ''Referenced PO '' @ ref @ '' not found''"
    by auto
  have loop: "find_all_loop self (invoice # rest) res =
      find_all_loop self rest
        (res\<lparr>errors := errors res @ [ErrorResult ?e],
             summary := (summary res)\<lparr>total_errors := total_errors (summary res) + 1\<rparr>\<rparr>)"
    by (simp only: find_all_loop.simps c classify_ERROR [OF st] sum.case)
  have none_inside: "get_header_issues (ErrorResult ?e) = []"
      "line_item_sub_issues (ErrorResult ?e) = []"
    by (simp_all add: get_header_issues_def line_item_sub_issues_def)
  have others: "\<exists>r'. find_all_mismatches (self\<lparr>invoices := before @ invoice # after\<rparr>) = Inr r' \<and>
      matched r' = matched r \<and> mismatched r' = mismatched r \<and>
      total_amount_variance (summary r') = total_amount_variance (summary r) \<and>
      total_errors (summary r') = total_errors (summary r) + 1 \<and>
      ErrorResult ?e \<in> set (errors r')"
    if r: "find_all_mismatches (self\<lparr>invoices := before @ after\<rparr>) = Inr r" for before after r
  proof -
    have "status_of (compare_invoice_with_po self invoice) = ERROR"
      by (simp only: c st)
    from error_invoice_skipped [OF this r] obtain r' where
      "find_all_mismatches (self\<lparr>invoices := before @ invoice # after\<rparr>) = Inr r'"
      "matched r' = matched r" "mismatched r' = mismatched r"
      "total_amount_variance (summary r') = total_amount_variance (summary r)"
      "total_errors (summary r') = total_errors (summary r) + 1"
      "errors r' = with_status ERROR (map (compare_invoice_with_po self) before)
         @ compare_invoice_with_po self invoice
         # with_status ERROR (map (compare_invoice_with_po self) after)"
      by blast
    then show ?thesis
      by (intro exI [of _ r']) (simp add: c)
  qed
  from others have all_others: "\<forall>before after r.
      find_all_mismatches (self\<lparr>invoices := before @ after\<rparr>) = Inr r \<longrightarrow>
      (\<exists>r'. find_all_mismatches (self\<lparr>invoices := before @ invoice # after\<rparr>) = Inr r' \<and>
            matched r' = matched r \<and> mismatched r' = mismatched r \<and>
            total_amount_variance (summary r') = total_amount_variance (summary r) \<and>
            total_errors (summary r') = total_errors (summary r) + 1 \<and>
            ErrorResult ?e \<in> set (errors r'))"
    by blast
  have fields: "e_status ?e = ERROR" "e_invoice_number ?e = i_invoice_number invoice"
    by simp_all
  show ?thesis
    by (rule exI [of _ ?e]) (intro conjI c st fields msg msg' loop none_inside all_others)
qed

theorem unresolved_reference_is_error_witness:
  "compare_invoice_with_po example_matcher orphan_invoice =
     ErrorResult \<lparr>e_invoice_number = ''INV-005003'', e_po_reference = Some ''PO-2024-99999'',
                  e_status = ERROR, error = ''Referenced PO PO-2024-99999 not found''\<rparr> \<and>
   compare_invoice_with_po example_matcher (orphan_invoice\<lparr>i_po_reference := Some []\<rparr>) =
     ErrorResult \<lparr>e_invoice_number = ''INV-005003'', e_po_reference = None,
                  e_status = ERROR, error = ''Invoice has no PO reference''\<rparr>"
proof -
  have ref: "i_po_reference orphan_invoice = Some ''PO-2024-99999''"
    and num: "i_invoice_number orphan_invoice = ''INV-005003''"
    by (simp_all add: orphan_invoice_def matching_invoice_def)
  have h1: "i_po_reference orphan_invoice = None \<or> i_po_reference orphan_invoice = Some [] \<or>
      (\<exists>ref. i_po_reference orphan_invoice = Some ref \<and> po_lookup example_matcher ref = None)"
    by (simp add: ref example_lookup)
  have h2: "i_po_reference (orphan_invoice\<lparr>i_po_reference := Some []\<rparr>) = None \<or>
      i_po_reference (orphan_invoice\<lparr>i_po_reference := Some []\<rparr>) = Some [] \<or>
      (\<exists>ref. i_po_reference (orphan_invoice\<lparr>i_po_reference := Some []\<rparr>) = Some ref \<and>
         po_lookup example_matcher ref = None)"
    by simp
  from unresolved_reference_is_error [OF h1] obtain e1 where
    e1: "compare_invoice_with_po example_matcher orphan_invoice = ErrorResult e1"
      "e_status e1 = ERROR" "e_invoice_number e1 = i_invoice_number orphan_invoice"
    and m1: "\<forall>r. i_po_reference orphan_invoice = Some r \<and> r \<noteq> [] \<longrightarrow>
      e_po_reference e1 = Some r \<and> error e1 = ''Referenced PO '' @ r @ '' not found''"
    by blast
  from unresolved_reference_is_error [OF h2] obtain e2 where
    e2: "compare_invoice_with_po example_matcher (orphan_invoice\<lparr>i_po_reference := Some []\<rparr>) =
       ErrorResult e2"
      "e_status e2 = ERROR"
      "e_invoice_number e2 = i_invoice_number (orphan_invoice\<lparr>i_po_reference := Some []\<rparr>)"
    and m2: "i_po_reference (orphan_invoice\<lparr>i_po_reference := Some []\<rparr>) = None \<or>
      i_po_reference (orphan_invoice\<lparr>i_po_reference := Some []\<rparr>) = Some [] \<longrightarrow>
      e_po_reference e2 = None \<and> error e2 = ''Invoice has no PO reference''"
    by blast
  from m1 have "e_po_reference e1 = Some ''PO-2024-99999''"
      "error e1 = ''Referenced PO PO-2024-99999 not found''"
    by (simp_all add: ref)
  moreover from m2 have "e_po_reference e2 = None" "error e2 = ''Invoice has no PO reference''"
    by simp_all
  moreover note e1 e2
  ultimately show ?thesis
    by (cases e1, cases e2) (simp add: num)
qed

text \<open>
  C3. The report does not complete for an empty invoice list: \<open>total_invoices\<close> is 0, the
  percentage of matched invoices divides by it, and the function raises
  \<^verbatim>\<open>ZeroDivisionError\<close> where the specification asks for 0%.
\<close>

theorem empty_invoice_list_raises:
  "get_mismatch_summary_text fm (self\<lparr>invoices := []\<rparr>) = Inl ZeroDivisionError"
proof -
  let ?self = "self\<lparr>invoices := []\<rparr>"
  have run: "find_all_mismatches ?self = Inr (initial_results ?self)"
    by (simp add: find_all_mismatches_def)
  have "total_invoices (initial_results ?self) = 0"
    by (simp add: initial_results_def)
  then have "summary_lines fm (initial_results ?self) = Inl ZeroDivisionError"
    by (rule summary_lines_raises)
  then have "report_lines fm (initial_results ?self) = Inl ZeroDivisionError"
    by (simp add: report_lines_def then_do_def)
  with run show ?thesis
    by (simp add: get_mismatch_summary_text_def then_do_def)
qed







text \<open>
  C7. An invoice and its purchase order with the same six header fields, the same item
  codes and, for each code, equal \<^verbatim>\<open>quantity\<close>, \<^verbatim>\<open>unit_price\<close> and \<^verbatim>\<open>total\<close> get status
  MATCH and \<open>total_issues = 0\<close>; and the line-item comparison of any reordering of the two
  item lists has no mismatch either.
\<close>

theorem identical_pair_matches:
  assumes "i_po_reference invoice = Some ref" and "ref \<noteq> []" and "po_lookup self ref = Some po"
    and "same_header invoice po"
    and "same_items_per_code (get_or_empty (i_line_items invoice)) (get_or_empty (p_line_items po))"
  shows "(\<exists>r. compare_invoice_with_po self invoice = Compared r \<and> status r = MATCH \<and>
            total_issues r = 0 \<and> header_issues r = [] \<and>
            mismatches (line_item_comparison r) = [] \<and>
            matched_items (line_item_comparison r) = length (get_or_empty (i_line_items invoice))) \<and>
         (\<forall>xs ys. mset xs = mset (get_or_empty (i_line_items invoice)) \<and>
                  mset ys = mset (get_or_empty (p_line_items po)) \<longrightarrow>
                  mismatches (compare_line_items xs ys) = [] \<and>
                  matched_items (compare_line_items xs ys) = length xs)"
proof -
  from assms have "resolve_po self invoice = Some (ref, po)"
    by (simp add: resolve_po_Some_iff)
  then have c: "compare_invoice_with_po self invoice = Compared (compare_with invoice ref po)"
    by (rule compare_resolved)
  have h: "header_checks invoice po = []"
    using assms(4) by (rule same_header_no_issues)
  note l = same_items_no_mismatch [OF assms(5)]
  have first: "\<exists>r. compare_invoice_with_po self invoice = Compared r \<and> status r = MATCH \<and>
      total_issues r = 0 \<and> header_issues r = [] \<and> mismatches (line_item_comparison r) = [] \<and>
      matched_items (line_item_comparison r) = length (get_or_empty (i_line_items invoice))"
    unfolding c by (intro exI [of _ "compare_with invoice ref po"]) (simp add: compare_with_fields h l)
  have second: "mismatches (compare_line_items xs ys) = [] \<and>
      matched_items (compare_line_items xs ys) = length xs"
    if "mset xs = mset (get_or_empty (i_line_items invoice))"
      "mset ys = mset (get_or_empty (p_line_items po))" for xs ys
  proof -
    have "same_items_per_code xs ys"
      using same_items_per_code_mset [OF that] assms(5) by simp
    then show ?thesis
      by (simp add: same_items_no_mismatch)
  qed
  from first second show ?thesis
    by blast
qed

theorem identical_pair_matches_witness:
  "\<exists>r. compare_invoice_with_po example_matcher matching_invoice = Compared r \<and>
     status r = MATCH \<and> total_issues r = 0 \<and>
     matched_items (line_item_comparison r) = 2"
proof -
  have h: "i_po_reference matching_invoice = Some ''PO-2024-01001''" "''PO-2024-01001'' \<noteq> []"
    "po_lookup example_matcher ''PO-2024-01001'' = Some example_po"
    by (simp_all add: matching_invoice_def example_lookup)
  have hd: "same_header matching_invoice example_po"
    by (simp add: same_header_def matching_invoice_def example_po_def)
  have items: "same_items_per_code (get_or_empty (i_line_items matching_invoice))
      (get_or_empty (p_line_items example_po))"
    by (auto simp: example_fields same_items_per_code_def widget_def cable_def)
  from identical_pair_matches [OF h hd items] show ?thesis
    by (auto simp: example_fields)
qed

text \<open>
  C8. For an invoice whose purchase order is found, \<open>total_issues\<close> is the number of header
  issues plus the number of entries of the line-item mismatch list (an entry counts once,
  however many fields it reports); the status is MISMATCH exactly when one of the two
  lists is not empty, and MATCH exactly when both are.
\<close>

theorem total_issues_and_status:
  assumes "i_po_reference invoice = Some ref" and "ref \<noteq> []" and "po_lookup self ref = Some po"
  shows "\<exists>r. compare_invoice_with_po self invoice = Compared r \<and>
     header_issues r = header_checks invoice po \<and>
     line_item_comparison r =
       compare_line_items (get_or_empty (i_line_items invoice)) (get_or_empty (p_line_items po)) \<and>
     total_issues r = length (header_issues r) + length (mismatches (line_item_comparison r)) \<and>
     (status r = MISMATCH \<longleftrightarrow>
        header_issues r \<noteq> [] \<or> mismatches (line_item_comparison r) \<noteq> []) \<and>
     (status r = MATCH \<longleftrightarrow>
        header_issues r = [] \<and> mismatches (line_item_comparison r) = [])"
proof -
  from assms have "resolve_po self invoice = Some (ref, po)"
    by (simp add: resolve_po_Some_iff)
  then have c: "compare_invoice_with_po self invoice = Compared (compare_with invoice ref po)"
    by (rule compare_resolved)
  show ?thesis
    unfolding c by (intro exI [of _ "compare_with invoice ref po"]) (simp add: compare_with_fields)
qed

theorem total_issues_and_status_witness:
  "\<exists>r. compare_invoice_with_po example_matcher overpriced_invoice = Compared r \<and>
     length (header_issues r) = 3 \<and> length (mismatches (line_item_comparison r)) = 1 \<and>
     total_issues r = 4 \<and> status r = MISMATCH"
proof -
  have h: "i_po_reference overpriced_invoice = Some ''PO-2024-01001''" "''PO-2024-01001'' \<noteq> []"
    "po_lookup example_matcher ''PO-2024-01001'' = Some example_po"
    by (simp_all add: overpriced_invoice_def matching_invoice_def example_lookup)
  from total_issues_and_status [OF h] show ?thesis
    by (auto simp: example_header_checks example_fields example_line_items)
qed


text \<open>
  C10. Whenever \<open>find_all_mismatches\<close> returns, \<open>high_severity_issues\<close> and
  \<open>medium_severity_issues\<close> are the numbers of header issues of severity HIGH and MEDIUM of
  the mismatched results, and their sum is the number of all header issues of those
  results. Matched and error results have no header issues, and the per-field issues
  inside line-item mismatches have no severity, so they are counted in neither.
\<close>

theorem severity_counters_header_only:
  assumes "find_all_mismatches self = Inr res"
  shows "high_severity_issues (summary res) =
           length (with_severity HIGH (concat (map get_header_issues (mismatched res)))) \<and>
         medium_severity_issues (summary res) =
           length (with_severity MEDIUM (concat (map get_header_issues (mismatched res)))) \<and>
         high_severity_issues (summary res) + medium_severity_issues (summary res) =
           length (concat (map get_header_issues (mismatched res))) \<and>
         (\<forall>c \<in> set (matched res) \<union> set (errors res). get_header_issues c = []) \<and>
         (\<forall>c \<in> set (mismatched res). \<forall>i \<in> set (line_item_sub_issues c). severity i = None)"
proof -
  let ?cmp = "compare_invoice_with_po self"
  let ?cs = "map ?cmp (invoices self)"
  have post: "loop_post (initial_results self) ?cs res"
    using assms by (rule find_all_mismatches_post)
  then have lists: "matched res = with_status MATCH ?cs" "mismatched res = with_status MISMATCH ?cs"
      "errors res = with_status ERROR ?cs"
    by (simp_all add: loop_post_def initial_results_def)
  let ?hs = "concat (map get_header_issues (mismatched res))"
  from post lists have high: "high_severity_issues (summary res) = length (with_severity HIGH ?hs)"
    and medium: "medium_severity_issues (summary res) = length (with_severity MEDIUM ?hs)"
    by (simp_all add: loop_post_def initial_results_def)
  have "\<forall>i \<in> set ?hs. severity i = Some HIGH \<or> severity i = Some MEDIUM"
    using header_issues_severity by (auto simp: lists with_status_def)
  then have total: "length (with_severity HIGH ?hs) + length (with_severity MEDIUM ?hs) = length ?hs"
    by (rule with_severity_lengths)
  have others: "\<forall>c \<in> set (matched res) \<union> set (errors res). get_header_issues c = []"
    using header_issues_only_MISMATCH by (auto simp: lists with_status_def)
  have subs: "\<forall>c \<in> set (mismatched res). \<forall>i \<in> set (line_item_sub_issues c). severity i = None"
    using line_item_sub_issues_severity by (auto simp: lists with_status_def)
  from high medium total others subs show ?thesis
    by simp
qed

theorem severity_counters_header_only_witness:
  "\<exists>res. find_all_mismatches example_matcher = Inr res \<and>
     high_severity_issues (summary res) = 2 \<and> medium_severity_issues (summary res) = 1 \<and>
     length (line_item_sub_issues (compare_invoice_with_po example_matcher overpriced_invoice)) = 2"
proof -
  obtain res where r: "find_all_mismatches example_matcher = Inr res"
    using example_returns ..
  have hs: "get_header_issues (compare_invoice_with_po example_matcher overpriced_invoice) =
      header_checks overpriced_invoice example_po"
    by (simp add: get_header_issues_compare example_resolve)
  have subs: "length (line_item_sub_issues
      (compare_invoice_with_po example_matcher overpriced_invoice)) = 2"
    by (simp add: compare_resolved [OF example_resolve(2)] line_item_sub_issues_def
        compare_with_fields example_fields example_line_items sub_issues_def)
  from severity_counters_header_only [OF r] subs show ?thesis
    by (intro exI [of _ res])
       (simp add: r example_lists [OF r] hs example_header_checks with_severity_def)
qed

end
